theory Spec2Isabelle
  imports Main
begin

section \<open>The timer and time-entry core of extension.ts\<close>

text \<open>
  A shallow embedding of the time-tracking part of \<^verbatim>\<open>src/extension.ts\<close>: the module-level
  variables become one record \<open>state\<close>, every function becomes a function from state to
  state, and what a function reads from outside (the clock \<^verbatim>\<open>Date.now()\<close>, the workspace
  configuration, the button the user picks, the outcome of the remote call) is an
  argument. All numbers the program computes with are integers (epoch milliseconds,
  \<^verbatim>\<open>Math.floor\<close> results, work item ids), so a JavaScript number is an \<open>int\<close> and
  \<^verbatim>\<open>Math.floor(x / 1000)\<close> is \<open>x div 1000\<close>. Status bar, webview, context keys and
  notifications do not feed back into the state and are left out.
\<close>

subsection \<open>Data\<close>

text \<open>\<^verbatim>\<open>interface TimerState\<close>; a field marked \<^verbatim>\<open>?\<close> is an option.\<close>

record TimerState =
  workItemId :: int
  workItemTitle :: string
  startTime :: int
  pausedTime :: "int option"
  elapsedSeconds :: int
  isPaused :: bool
  isPomodoro :: "bool option"
  pomodoroCount :: "int option"
  pausedDueToInactivity :: "bool option"

text \<open>\<^verbatim>\<open>interface TimeEntry\<close> (the field \<^verbatim>\<open>description\<close> is never written).\<close>

record TimeEntry =
  entryId :: string
  te_workItemId :: int
  te_workItemTitle :: "string option"
  te_startTime :: int
  te_endTime :: int
  duration :: int
  synced :: bool
  syncError :: "string option"
  deviceId :: "string option"

text \<open>The two fields of \<^verbatim>\<open>WorkItem\<close> that the timer reads.\<close>

record WorkItem =
  System_Id :: int
  System_Title :: string

text \<open>
  A value read back from durable storage is untyped. \<open>jsval\<close> is what a field of the
  persisted timer object may hold; \<open>JUndefined\<close> is a missing field.
\<close>

datatype jsval = JUndefined | JNull | JBool bool | JNum int | JStr string

datatype jstype = TUndefined | TObject | TBoolean | TNumber | TString

fun typeof :: "jsval \<Rightarrow> jstype" where
  "typeof JUndefined = TUndefined"
| "typeof JNull = TObject"
| "typeof (JBool b) = TBoolean"
| "typeof (JNum n) = TNumber"
| "typeof (JStr s) = TString"

text \<open>Reading a value at the type its \<^verbatim>\<open>typeof\<close> check has established.\<close>

fun num_of :: "jsval \<Rightarrow> int" where
  "num_of (JNum n) = n"
| "num_of v = 0"

fun str_of :: "jsval \<Rightarrow> string" where
  "str_of (JStr s) = s"
| "str_of v = []"

fun bool_of :: "jsval \<Rightarrow> bool" where
  "bool_of (JBool b) = b"
| "bool_of v = False"

text \<open>
  The object stored under the key \<^verbatim>\<open>currentTimer\<close>. The five fields that
  \<^verbatim>\<open>isValidTimerState\<close> inspects may hold anything; the optional fields, which no code
  inspects before use, are kept at their declared types.
\<close>

record snapshot =
  js_workItemId :: jsval
  js_workItemTitle :: jsval
  js_startTime :: jsval
  js_elapsedSeconds :: jsval
  js_isPaused :: jsval
  js_pausedTime :: "int option"
  js_isPomodoro :: "bool option"
  js_pomodoroCount :: "int option"
  js_pausedDueToInactivity :: "bool option"

definition toSnapshot :: "TimerState \<Rightarrow> snapshot" where
  "toSnapshot t =
     \<lparr> js_workItemId = JNum (workItemId t),
       js_workItemTitle = JStr (workItemTitle t),
       js_startTime = JNum (startTime t),
       js_elapsedSeconds = JNum (elapsedSeconds t),
       js_isPaused = JBool (isPaused t),
       js_pausedTime = pausedTime t,
       js_isPomodoro = isPomodoro t,
       js_pomodoroCount = pomodoroCount t,
       js_pausedDueToInactivity = pausedDueToInactivity t \<rparr>"

definition toTimerState :: "snapshot \<Rightarrow> TimerState" where
  "toTimerState v =
     \<lparr> workItemId = num_of (js_workItemId v),
       workItemTitle = str_of (js_workItemTitle v),
       startTime = num_of (js_startTime v),
       pausedTime = js_pausedTime v,
       elapsedSeconds = num_of (js_elapsedSeconds v),
       isPaused = bool_of (js_isPaused v),
       isPomodoro = js_isPomodoro v,
       pomodoroCount = js_pomodoroCount v,
       pausedDueToInactivity = js_pausedDueToInactivity v \<rparr>"

text \<open>The settings read through \<^verbatim>\<open>getConfiguration('azureDevOps')\<close>; \<open>None\<close> is unset.\<close>

record config =
  pomodoroEnabled :: "bool option"
  timerInactivityTimeout :: "int option"
  autoResumeOnActivity :: "bool option"

text \<open>
  How the promise of \<^verbatim>\<open>azureDevOpsAPI.addTimeEntry\<close> settles. It rejects with an
  \<^verbatim>\<open>Error\<close> (its own, or the HTTP client's); \<open>Rejected m\<close> carries \<^verbatim>\<open>error.message\<close>.
\<close>

datatype outcome = Resolved | Rejected string

text \<open>
  A suspended run of \<^verbatim>\<open>syncPendingTimeEntries\<close>: the number of the pass, and where in
  the loop it waits. Entries are referred to by their position in \<^verbatim>\<open>timeEntries\<close>,
  which only grows. \<open>Awaiting g i rest\<close> waits for the remote call on entry \<open>i\<close>,
  \<open>Sleeping g rest\<close> waits in the 500 ms delay; \<open>rest\<close> is what is left of
  \<^verbatim>\<open>pendingEntries\<close>.
\<close>

datatype syncPass = Awaiting nat nat "nat list" | Sleeping nat "nat list"

text \<open>
  The module-level variables, the keys of \<^verbatim>\<open>context.globalState\<close> (prefix \<open>gs_\<close>), and
  the event loop's view of the sync passes: the suspended passes, how many passes were
  started, and the log of remote calls that passes made (pass number, entry position).
  A timer handle is reduced to whether it is armed; the inactivity interval keeps the
  timeout its callback has captured.
\<close>

record state =
  azureDevOpsAPI :: bool
  currentTimer :: "TimerState option"
  timerInterval :: bool
  inactivityTimer :: "int option"
  pomodoroBreakTimeout :: bool
  timerStartLock :: bool
  lastActivity :: int
  lastActivityResumeTime :: int
  timeEntries :: "TimeEntry list"
  isSyncingTimeEntries :: bool
  gs_currentTimer :: "snapshot option"
  gs_lastSaveTime :: "int option"
  gs_lastPomodoroNotification :: "int option"
  gs_timeEntries :: "TimeEntry list"
  gs_totalTimeTracked :: "int option"
  passes :: "syncPass list"
  syncPassCount :: nat
  passSubmissions :: "(nat \<times> nat) list"

subsection \<open>Inactivity monitor and tick\<close>

text \<open>\<^verbatim>\<open>x || d\<close> on an optional number: \<^verbatim>\<open>undefined\<close> and \<^verbatim>\<open>0\<close> are falsy.\<close>

definition num_or :: "int option \<Rightarrow> int \<Rightarrow> int" where
  "num_or x d = (case x of None \<Rightarrow> d | Some v \<Rightarrow> if v = 0 then d else v)"

definition startInactivityTimer :: "config \<Rightarrow> state \<Rightarrow> state" where
  "startInactivityTimer cfg s =
     (let timeout = num_or (timerInactivityTimeout cfg) 300;
          s1 = s\<lparr>inactivityTimer := None\<rparr>
      in if timeout \<le> 0 then s1
         else s1\<lparr>inactivityTimer := Some timeout\<rparr>)"

definition startTimerInterval :: "config \<Rightarrow> state \<Rightarrow> state" where
  "startTimerInterval cfg s = startInactivityTimer cfg (s\<lparr>timerInterval := True\<rparr>)"

text \<open>
  The Pomodoro part of the tick: \<open>t\<close> is the timer with its elapsed time already
  recomputed. The result is the timer and the state after the check.
\<close>

definition pomodoroCheck :: "TimerState \<Rightarrow> state \<Rightarrow> TimerState \<times> state" where
  "pomodoroCheck t s =
     (if isPomodoro t = Some True then
        (let pomodoroSeconds = 25 * 60;
             breakSeconds = 5 * 60;
             cycleSeconds = pomodoroSeconds + breakSeconds;
             elapsedInCycle = elapsedSeconds t mod cycleSeconds;
             pomodoroJustCompleted = (elapsedInCycle = pomodoroSeconds);
             lastPomodoroNotification =
               (case gs_lastPomodoroNotification s of None \<Rightarrow> 0 | Some v \<Rightarrow> v);
             timeSinceLastNotification = elapsedSeconds t - lastPomodoroNotification
         in if pomodoroJustCompleted \<and> timeSinceLastNotification \<ge> pomodoroSeconds then
              (t\<lparr>pomodoroCount := map_option (\<lambda>c. c + 1) (pomodoroCount t)\<rparr>,
               s\<lparr>gs_lastPomodoroNotification := Some (elapsedSeconds t),
                 pomodoroBreakTimeout := False\<rparr>)
            else (t, s))
      else (t, s))"

text \<open>The callback that \<^verbatim>\<open>startTimerInterval\<close> hands to \<^verbatim>\<open>setInterval\<close>.\<close>

definition timerTick :: "int \<Rightarrow> state \<Rightarrow> state" where
  "timerTick now s =
     (case currentTimer s of
        None \<Rightarrow> s
      | Some t \<Rightarrow>
          if isPaused t then s
          else
            (let rawElapsed = (now - startTime t) div 1000;
                 t1 = t\<lparr>elapsedSeconds := max 0 (min rawElapsed 86400)\<rparr>;
                 (t2, s2) = pomodoroCheck t1 s
             in s2\<lparr>currentTimer := Some t2, gs_currentTimer := Some (toSnapshot t2)\<rparr>))"

subsection \<open>Start, pause, resume\<close>

definition startTimer :: "WorkItem \<Rightarrow> int \<Rightarrow> config \<Rightarrow> state \<Rightarrow> state" where
  "startTimer workItem now cfg s =
     (if timerStartLock s then s
      else if currentTimer s \<noteq> None then s
      else
        (let s1 = s\<lparr>timerStartLock := True\<rparr>;
             t = \<lparr> workItemId = System_Id workItem,
                   workItemTitle = System_Title workItem,
                   startTime = now,
                   pausedTime = None,
                   elapsedSeconds = 0,
                   isPaused = False,
                   isPomodoro = pomodoroEnabled cfg,
                   pomodoroCount = Some 0,
                   pausedDueToInactivity = None \<rparr>;
             s2 = s1\<lparr>currentTimer := Some t,
                     gs_lastPomodoroNotification := Some 0,
                     gs_currentTimer := Some (toSnapshot t)\<rparr>;
             s3 = startTimerInterval cfg s2;
             s4 = startInactivityTimer cfg s3
         in s4\<lparr>timerStartLock := False\<rparr>))"

definition pauseTimerCommand :: "int \<Rightarrow> state \<Rightarrow> state" where
  "pauseTimerCommand now s =
     (case currentTimer s of
        None \<Rightarrow> s
      | Some t \<Rightarrow>
          if isPaused t then s
          else
            (let rawElapsed = (now - startTime t) div 1000;
                 t' = t\<lparr>elapsedSeconds := max 0 (min rawElapsed 86400),
                        isPaused := True,
                        pausedTime := Some now\<rparr>
             in s\<lparr>currentTimer := Some t',
                  timerInterval := False,
                  gs_currentTimer := Some (toSnapshot t'),
                  gs_lastSaveTime := Some now\<rparr>))"

text \<open>\<open>autoResumed\<close> only selects the notification that is shown.\<close>

definition resumeTimerCommand :: "bool \<Rightarrow> int \<Rightarrow> config \<Rightarrow> state \<Rightarrow> state" where
  "resumeTimerCommand autoResumed now cfg s =
     (case currentTimer s of
        None \<Rightarrow> s
      | Some t \<Rightarrow>
          if \<not> isPaused t then s
          else
            (let t1 = (case pausedTime t of
                         None \<Rightarrow> t
                       | Some p \<Rightarrow>
                           if p \<noteq> 0 \<and> p > 0 then
                             (let pausedDuration = max 0 (now - p);
                                  cappedPausedDuration = min pausedDuration (24 * 60 * 60 * 1000)
                              in t\<lparr>startTime := startTime t + cappedPausedDuration\<rparr>)
                           else t);
                 t2 = t1\<lparr>isPaused := False, pausedTime := None\<rparr>
             in startTimerInterval cfg
                  (s\<lparr>currentTimer := Some t2, gs_currentTimer := Some (toSnapshot t2)\<rparr>)))"

text \<open>
  The callback of the inactivity interval; it exists only while the interval is armed,
  and compares with the timeout captured when it was armed.
  \<^verbatim>\<open>(Date.now() - lastActivity) / 1000 >= timeout\<close> is written without the division.
\<close>

definition inactivityCheck :: "int \<Rightarrow> state \<Rightarrow> state" where
  "inactivityCheck now s =
     (case inactivityTimer s of
        None \<Rightarrow> s
      | Some timeout \<Rightarrow>
          (case currentTimer s of
             None \<Rightarrow> s
           | Some t \<Rightarrow>
               if \<not> isPaused t \<and> now - lastActivity s \<ge> timeout * 1000 then
                 pauseTimerCommand now
                   (s\<lparr>currentTimer := Some (t\<lparr>pausedDueToInactivity := Some True\<rparr>)\<rparr>)
               else s))"

definition updateActivity :: "int \<Rightarrow> config \<Rightarrow> state \<Rightarrow> state" where
  "updateActivity now cfg s =
     (let s1 = s\<lparr>lastActivity := now\<rparr>
      in case currentTimer s1 of
           None \<Rightarrow> s1
         | Some t \<Rightarrow>
             if isPaused t \<and> pausedDueToInactivity t = Some True then
               if now - lastActivityResumeTime s1 < 5000 then s1
               else
                 (let autoResume = (case autoResumeOnActivity cfg of None \<Rightarrow> True | Some b \<Rightarrow> b)
                  in if autoResume then
                       resumeTimerCommand True now cfg
                         (s1\<lparr>lastActivityResumeTime := now,
                             currentTimer := Some (t\<lparr>pausedDueToInactivity := Some False\<rparr>)\<rparr>)
                     else s1)
             else s1)"

subsection \<open>Ledger and sync\<close>

definition saveTimeEntries :: "int \<Rightarrow> state \<Rightarrow> state" where
  "saveTimeEntries now s = s\<lparr>gs_timeEntries := timeEntries s, gs_lastSaveTime := Some now\<rparr>"

definition clearTimerState :: "state \<Rightarrow> state" where
  "clearTimerState s =
     s\<lparr>timerInterval := False,
       inactivityTimer := None,
       currentTimer := None,
       gs_currentTimer := None\<rparr>"

text \<open>What the two branches of the \<^verbatim>\<open>try\<close>/\<^verbatim>\<open>catch\<close> do to the entry.\<close>

definition markSynced :: "TimeEntry \<Rightarrow> TimeEntry" where
  "markSynced entry = entry\<lparr>synced := True, syncError := None\<rparr>"

definition markFailed :: "string \<Rightarrow> TimeEntry \<Rightarrow> TimeEntry" where
  "markFailed message entry =
     entry\<lparr>syncError := Some (if message = [] then ''Unknown error'' else message)\<rparr>"

text \<open>
  The part of \<^verbatim>\<open>syncTimeEntryToAzure\<close> that runs once the remote call on the entry at
  position \<open>i\<close> has settled: the rest of the \<^verbatim>\<open>try\<close> block, or the \<^verbatim>\<open>catch\<close> block.
\<close>

definition syncSettled :: "nat \<Rightarrow> outcome \<Rightarrow> int \<Rightarrow> state \<Rightarrow> bool \<times> state" where
  "syncSettled i result now s =
     (case result of
        Resolved \<Rightarrow>
          (True, saveTimeEntries now
                   (s\<lparr>timeEntries := (timeEntries s)[i := markSynced (timeEntries s ! i)]\<rparr>))
      | Rejected message \<Rightarrow>
          (False, saveTimeEntries now
                    (s\<lparr>timeEntries := (timeEntries s)[i := markFailed message (timeEntries s ! i)]\<rparr>)))"

text \<open>
  \<^verbatim>\<open>syncTimeEntryToAzure\<close> from call to return, for a caller that awaits it. The remote
  call's rejection is the only exception raised inside; the \<^verbatim>\<open>catch\<close> block takes it.
\<close>

definition syncTimeEntryToAzure :: "nat \<Rightarrow> outcome \<Rightarrow> int \<Rightarrow> state \<Rightarrow> bool \<times> state" where
  "syncTimeEntryToAzure i result now s =
     (if \<not> azureDevOpsAPI s then (False, s) else syncSettled i result now s)"

text \<open>
  The loop of \<^verbatim>\<open>syncPendingTimeEntries\<close>, run from the head of what is left of
  \<^verbatim>\<open>pendingEntries\<close> up to its next \<^verbatim>\<open>await\<close>. An entry found synced is skipped without
  suspending. Otherwise \<^verbatim>\<open>syncTimeEntryToAzure\<close> is entered: without an API it returns at
  once and the pass goes to the delay; with one, the remote call is made (and logged)
  and the pass waits for it. When nothing is left the \<^verbatim>\<open>finally\<close> block clears the flag.
\<close>

fun syncLoop :: "nat \<Rightarrow> nat list \<Rightarrow> state \<Rightarrow> state" where
  "syncLoop g [] s = s\<lparr>isSyncingTimeEntries := False\<rparr>"
| "syncLoop g (i # rest) s =
     (if synced (timeEntries s ! i) then syncLoop g rest s
      else if \<not> azureDevOpsAPI s then s\<lparr>passes := passes s @ [Sleeping g rest]\<rparr>
      else s\<lparr>passSubmissions := passSubmissions s @ [(g, i)],
             passes := passes s @ [Awaiting g i rest]\<rparr>)"

text \<open>A call of \<^verbatim>\<open>syncPendingTimeEntries\<close>, up to its first \<^verbatim>\<open>await\<close> or its return.\<close>

definition syncPendingTimeEntries :: "state \<Rightarrow> state" where
  "syncPendingTimeEntries s =
     (if \<not> azureDevOpsAPI s then s
      else if isSyncingTimeEntries s then s
      else
        (let pendingEntries =
               filter (\<lambda>i. \<not> synced (timeEntries s ! i)) [0..<length (timeEntries s)]
         in if pendingEntries = [] then s
            else syncLoop (syncPassCount s) pendingEntries
                   (s\<lparr>isSyncingTimeEntries := True, syncPassCount := Suc (syncPassCount s)\<rparr>)))"

text \<open>
  The event loop resumes the \<open>k\<close>-th suspended pass: a pass waiting for the remote call
  gets its outcome, finishes \<^verbatim>\<open>syncTimeEntryToAzure\<close> and goes to the delay; a pass in
  the delay goes on with the loop.
\<close>

definition syncResume :: "nat \<Rightarrow> outcome \<Rightarrow> int \<Rightarrow> state \<Rightarrow> state" where
  "syncResume k result now s =
     (if k \<ge> length (passes s) then s
      else
        (let s1 = s\<lparr>passes := take k (passes s) @ drop (Suc k) (passes s)\<rparr>
         in case passes s ! k of
              Awaiting g i rest \<Rightarrow>
                (let s2 = snd (syncSettled i result now s1)
                 in s2\<lparr>passes := passes s2 @ [Sleeping g rest]\<rparr>)
            | Sleeping g rest \<Rightarrow> syncLoop g rest s1))"

subsection \<open>Stop and restore\<close>

text \<open>
  What \<^verbatim>\<open>stopTimerCommand\<close> obtains after it has computed the duration: the button picked
  in the under-a-minute prompt, the generated id, the clock when the entry is built,
  the machine id, the button picked in the update prompt, and the outcome and time of
  the remote call made on \<^verbatim>\<open>Yes\<close>.
\<close>

record stopInputs =
  confirmChoice :: "string option"
  generatedId :: string
  entryNow :: int
  machineId :: string
  updateChoice :: "string option"
  remoteResult :: outcome
  settledNow :: int

text \<open>
  The duration that \<^verbatim>\<open>stopTimerCommand\<close> computes first, from the clock at its call, and
  the entry it builds once the duration is accepted. The number of hours passed to the
  remote call is a formatting of the duration and is not modelled;
  \<^verbatim>\<open>checkMilestones\<close> only reads counters and prompts.
\<close>

definition stopDuration :: "int \<Rightarrow> TimerState \<Rightarrow> int" where
  "stopDuration now t =
     (if isPaused t then elapsedSeconds t
      else (let rawDuration = (now - startTime t) div 1000
            in max 0 (min rawDuration 86400)))"

definition newTimeEntry :: "TimerState \<Rightarrow> int \<Rightarrow> stopInputs \<Rightarrow> TimeEntry" where
  "newTimeEntry t d inp =
     \<lparr> entryId = generatedId inp,
       te_workItemId = workItemId t,
       te_workItemTitle = Some (workItemTitle t),
       te_startTime = startTime t,
       te_endTime = entryNow inp,
       duration = d,
       synced = False,
       syncError = None,
       deviceId = Some (machineId inp) \<rparr>"

definition stopTimerCommand :: "int \<Rightarrow> stopInputs \<Rightarrow> state \<Rightarrow> state" where
  "stopTimerCommand now inp s =
     (case currentTimer s of
        None \<Rightarrow> s
      | Some t \<Rightarrow>
          (let d = stopDuration now t
           in if d < 60 \<and> confirmChoice inp \<noteq> Some ''Save'' then clearTimerState s
              else
                (let timeEntry = newTimeEntry t d inp;
                     s1 = saveTimeEntries (entryNow inp)
                            (s\<lparr>timeEntries := timeEntries s @ [timeEntry]\<rparr>);
                     s2 = (if azureDevOpsAPI s1 \<and> updateChoice inp = Some ''Yes''
                           then snd (syncTimeEntryToAzure (length (timeEntries s))
                                       (remoteResult inp) (settledNow inp) s1)
                           else s1);
                     s3 = clearTimerState s2;
                     totalTimeTracked =
                       (case gs_totalTimeTracked s3 of None \<Rightarrow> 0 | Some v \<Rightarrow> v);
                     s4 = s3\<lparr>gs_totalTimeTracked := Some (totalTimeTracked + d)\<rparr>;
                     otherPendingEntries =
                       filter (\<lambda>e. \<not> synced e \<and> entryId e \<noteq> entryId timeEntry) (timeEntries s4)
                 in if otherPendingEntries \<noteq> [] then syncPendingTimeEntries s4 else s4)))"

text \<open>
  The stored value is an object or absent (\<^verbatim>\<open>TimerState | undefined\<close>), so the leading
  \<^verbatim>\<open>timer &&\<close> of the validation holds; the other conjuncts are the source's, in order.
\<close>

definition isValidTimerState :: "snapshot \<Rightarrow> bool" where
  "isValidTimerState timer \<longleftrightarrow>
     typeof (js_workItemId timer) = TNumber \<and>
     num_of (js_workItemId timer) > 0 \<and>
     typeof (js_workItemTitle timer) = TString \<and>
     typeof (js_startTime timer) = TNumber \<and>
     num_of (js_startTime timer) > 0 \<and>
     typeof (js_elapsedSeconds timer) = TNumber \<and>
     num_of (js_elapsedSeconds timer) \<ge> 0 \<and>
     num_of (js_elapsedSeconds timer) \<le> 86400 \<and>
     typeof (js_isPaused timer) = TBoolean"

text \<open>
  \<^verbatim>\<open>x && x > 0\<close> on an optional number is written out as present, nonzero and positive.
  Restore reads the store and does not write it, except to drop an invalid snapshot.
\<close>

definition restoreTimerState :: "int \<Rightarrow> config \<Rightarrow> state \<Rightarrow> state" where
  "restoreTimerState now cfg s =
     (case gs_currentTimer s of
        None \<Rightarrow> s
      | Some savedTimer \<Rightarrow>
          if \<not> isValidTimerState savedTimer then s\<lparr>gs_currentTimer := None\<rparr>
          else
            (let t = toTimerState savedTimer;
                 t' = (if \<not> isPaused t then
                         (case gs_lastSaveTime s of
                            None \<Rightarrow> t\<lparr>startTime := now - elapsedSeconds t * 1000\<rparr>
                          | Some lastSaveTime \<Rightarrow>
                              if lastSaveTime \<noteq> 0 \<and> lastSaveTime > 0 then
                                (let elapsedSinceLastSave = max 0 (now - lastSaveTime);
                                     cappedElapsed = min elapsedSinceLastSave (60 * 60 * 1000);
                                     e1 = elapsedSeconds t + cappedElapsed div 1000;
                                     e2 = min e1 86400
                                 in t\<lparr>elapsedSeconds := e2, startTime := now - e2 * 1000\<rparr>)
                              else t\<lparr>startTime := now - elapsedSeconds t * 1000\<rparr>)
                       else t)
             in startTimerInterval cfg (s\<lparr>currentTimer := Some t'\<rparr>)))"

text \<open>A run of tick callbacks at the given clock readings, in order.\<close>

fun ticks :: "int list \<Rightarrow> state \<Rightarrow> state" where
  "ticks [] s = s"
| "ticks (now # nows) s = ticks nows (timerTick now s)"

text \<open>The elapsed seconds that a tick at clock \<open>now\<close> computes for a timer started at \<open>start\<close>.\<close>

definition elapsedAt :: "int \<Rightarrow> int \<Rightarrow> int" where
  "elapsedAt start now = max 0 (min ((now - start) div 1000) 86400)"

subsection \<open>The event loop\<close>

text \<open>
  Everything runs on one event loop, so the program is a sequence of callbacks, each
  running to its next \<^verbatim>\<open>await\<close>. An event is one such callback with what it reads from
  outside. \<open>Tick\<close> and \<open>InactivityFired\<close> are the two interval callbacks, which run only
  while their interval is armed; \<open>StartBreak\<close> and \<open>BreakOver\<close> are the continuations of
  the Pomodoro prompts; \<open>SyncTimer\<close> is a call of \<^verbatim>\<open>syncPendingTimeEntries\<close> from the
  start-up timeout or the five-minute interval; \<open>SyncWake\<close> resumes a suspended pass;
  \<open>DirectSync\<close> is a call of \<^verbatim>\<open>syncTimeEntryToAzure\<close> on one entry from outside a pass;
  \<open>ApiChanged\<close> is the connection being set up or dropped. The commands that await
  the user (\<open>Stop\<close>) are taken in one piece, with the answers as arguments.
\<close>

datatype event =
    Start WorkItem int config
  | Pause int
  | Resume int config
  | Tick int
  | Stop int stopInputs
  | Restore int config
  | InactivityFired int
  | Activity int config
  | StartBreak int
  | BreakOver int config
  | SyncTimer
  | SyncWake nat outcome int
  | DirectSync nat outcome int
  | ApiChanged bool

fun step :: "event \<Rightarrow> state \<Rightarrow> state" where
  "step (Start workItem now cfg) s = startTimer workItem now cfg s"
| "step (Pause now) s = pauseTimerCommand now s"
| "step (Resume now cfg) s = resumeTimerCommand False now cfg s"
| "step (Tick now) s = (if timerInterval s then timerTick now s else s)"
| "step (Stop now inp) s = stopTimerCommand now inp s"
| "step (Restore now cfg) s = restoreTimerState now cfg s"
| "step (InactivityFired now) s = inactivityCheck now s"
| "step (Activity now cfg) s = updateActivity now cfg s"
| "step (StartBreak now) s = (pauseTimerCommand now s)\<lparr>pomodoroBreakTimeout := True\<rparr>"
| "step (BreakOver now cfg) s =
     (if pomodoroBreakTimeout s
      then resumeTimerCommand False now cfg (s\<lparr>pomodoroBreakTimeout := False\<rparr>)
      else s)"
| "step SyncTimer s = syncPendingTimeEntries s"
| "step (SyncWake k result now) s = syncResume k result now s"
| "step (DirectSync i result now) s =
     (if i < length (timeEntries s) then snd (syncTimeEntryToAzure i result now s) else s)"
| "step (ApiChanged b) s = s\<lparr>azureDevOpsAPI := b\<rparr>"

text \<open>
  The state when the extension has been activated: no timer in memory, no handle armed,
  no pass running. The ledger, the durable store and the connection are arbitrary.
\<close>

definition initial :: "state \<Rightarrow> bool" where
  "initial s \<longleftrightarrow>
     currentTimer s = None \<and> \<not> timerInterval s \<and> inactivityTimer s = None \<and>
     \<not> pomodoroBreakTimeout s \<and> \<not> timerStartLock s \<and> lastActivityResumeTime s = 0 \<and>
     \<not> isSyncingTimeEntries s \<and> passes s = [] \<and> syncPassCount s = 0 \<and>
     passSubmissions s = []"

inductive reachable :: "state \<Rightarrow> bool" where
  reachable_initial: "initial s \<Longrightarrow> reachable s"
| reachable_step: "reachable s \<Longrightarrow> reachable (step e s)"

text \<open>The bound on the elapsed time of the session in memory, if there is one.\<close>

definition session_ok :: "state \<Rightarrow> bool" where
  "session_ok s =
     (case currentTimer s of
        None \<Rightarrow> True
      | Some t \<Rightarrow> 0 \<le> elapsedSeconds t \<and> elapsedSeconds t \<le> 86400)"


definition pass_ok :: "state \<Rightarrow> syncPass \<Rightarrow> bool" where
  "pass_ok s p =
     (case p of
        Awaiting g i rest \<Rightarrow>
          g < syncPassCount s \<and> i < length (timeEntries s) \<and> distinct rest \<and>
          list_all (\<lambda>j. j < length (timeEntries s) \<and> (g, j) \<notin> set (passSubmissions s)) rest
      | Sleeping g rest \<Rightarrow>
          g < syncPassCount s \<and> distinct rest \<and>
          list_all (\<lambda>j. j < length (timeEntries s) \<and> (g, j) \<notin> set (passSubmissions s)) rest)"

definition sync_inv :: "state \<Rightarrow> bool" where
  "sync_inv s \<longleftrightarrow>
     length (passes s) \<le> 1 \<and>
     (isSyncingTimeEntries s \<longleftrightarrow> passes s \<noteq> []) \<and>
     distinct (passSubmissions s) \<and>
     list_all (\<lambda>x. fst x < syncPassCount s) (passSubmissions s) \<and>
     list_all (pass_ok s) (passes s)"

text \<open>
  A running Pomodoro session started at \<open>start\<close> that has not yet been notified: its
  cycle count and the persisted marker are still 0.
\<close>

definition awaiting_first_pomodoro :: "int \<Rightarrow> state \<Rightarrow> bool" where
  "awaiting_first_pomodoro start s \<longleftrightarrow>
     (case currentTimer s of
        None \<Rightarrow> False
      | Some t \<Rightarrow> startTime t = start \<and> \<not> isPaused t \<and> isPomodoro t = Some True \<and>
                  pomodoroCount t = Some 0) \<and>
     gs_lastPomodoroNotification s = Some 0"

subsection \<open>Sample inputs\<close>

definition cfg0 :: config where
  "cfg0 = \<lparr> pomodoroEnabled = Some True, timerInactivityTimeout = Some 300,
            autoResumeOnActivity = None \<rparr>"

definition item42 :: WorkItem where
  "item42 = \<lparr> System_Id = 42, System_Title = ''Fix bug'' \<rparr>"

definition idle0 :: state where
  "idle0 =
     \<lparr> azureDevOpsAPI = True,
       currentTimer = None,
       timerInterval = False,
       inactivityTimer = None,
       pomodoroBreakTimeout = False,
       timerStartLock = False,
       lastActivity = 1000,
       lastActivityResumeTime = 0,
       timeEntries = [],
       isSyncingTimeEntries = False,
       gs_currentTimer = None,
       gs_lastSaveTime = None,
       gs_lastPomodoroNotification = Some 1500,
       gs_timeEntries = [],
       gs_totalTimeTracked = None,
       passes = [],
       syncPassCount = 0,
       passSubmissions = [] \<rparr>"

definition running0 :: state where
  "running0 = step (Start item42 1000 cfg0) idle0"

definition timer0 :: TimerState where
  "timer0 =
     \<lparr> workItemId = 42, workItemTitle = ''Fix bug'', startTime = 1000, pausedTime = None,
       elapsedSeconds = 0, isPaused = False, isPomodoro = Some True, pomodoroCount = Some 0,
       pausedDueToInactivity = None \<rparr>"

definition paused0 :: state where
  "paused0 = step (Pause 91000) running0"

definition inactive0 :: state where
  "inactive0 = step (InactivityFired 400000) running0"

definition inp0 :: stopInputs where
  "inp0 = \<lparr> confirmChoice = None, generatedId = ''1700000201000-abc'', entryNow = 201000,
            machineId = ''machine'', updateChoice = Some ''No'', remoteResult = Resolved,
            settledNow = 201000 \<rparr>"

definition inp151 :: stopInputs where
  "inp151 = inp0\<lparr>entryNow := 151000\<rparr>"

definition inpDiscard :: stopInputs where
  "inpDiscard = inp0\<lparr>confirmChoice := Some ''Discard'', entryNow := 12000\<rparr>"

definition inpSave :: stopInputs where
  "inpSave = inp0\<lparr>confirmChoice := Some ''Save'', entryNow := 12000\<rparr>"

definition entryA :: TimeEntry where
  "entryA = \<lparr> entryId = ''a'', te_workItemId = 42, te_workItemTitle = Some ''Fix bug'',
              te_startTime = 1000, te_endTime = 151000, duration = 150, synced = False,
              syncError = None, deviceId = Some ''machine'' \<rparr>"

definition entryB :: TimeEntry where
  "entryB = entryA\<lparr>entryId := ''b'', te_workItemId := 7\<rparr>"

definition pending0 :: state where
  "pending0 = idle0\<lparr>timeEntries := [entryA, entryB]\<rparr>"

definition syncing0 :: state where
  "syncing0 = step SyncTimer pending0"

definition sleeping0 :: state where
  "sleeping0 = step (SyncWake 0 (Rejected ''HTTP 503'') 5000) syncing0"

definition synced0 :: state where
  "synced0 = idle0\<lparr>timeEntries := [entryA\<lparr>synced := True\<rparr>]\<rparr>"

definition badSnapshot :: snapshot where
  "badSnapshot =
     \<lparr> js_workItemId = JNum 42, js_workItemTitle = JStr ''Fix bug'', js_startTime = JNum 1000,
       js_elapsedSeconds = JNum (- 5), js_isPaused = JBool False, js_pausedTime = None,
       js_isPomodoro = None, js_pomodoroCount = Some 0, js_pausedDueToInactivity = None \<rparr>"

definition stale0 :: state where
  "stale0 = idle0\<lparr>gs_currentTimer := Some badSnapshot\<rparr>"

definition cfgZero :: config where
  "cfgZero = cfg0\<lparr>timerInactivityTimeout := Some 0\<rparr>"

section \<open>Auxiliary facts\<close>

lemmas op_defs = startTimer_def startTimerInterval_def startInactivityTimer_def num_or_def
  pauseTimerCommand_def resumeTimerCommand_def timerTick_def pomodoroCheck_def
  inactivityCheck_def updateActivity_def clearTimerState_def saveTimeEntries_def
  stopTimerCommand_def stopDuration_def newTimeEntry_def syncTimeEntryToAzure_def
  syncSettled_def markSynced_def markFailed_def syncPendingTimeEntries_def syncResume_def
  restoreTimerState_def isValidTimerState_def toSnapshot_def toTimerState_def Let_def

lemmas sample_defs = cfg0_def item42_def idle0_def running0_def timer0_def inp151_def paused0_def inactive0_def
  inp0_def inpDiscard_def inpSave_def entryA_def entryB_def pending0_def syncing0_def sleeping0_def
  synced0_def badSnapshot_def stale0_def cfgZero_def

subsection \<open>The session bound is kept by every event\<close>

lemma currentTimer_startInactivityTimer: "currentTimer (startInactivityTimer cfg s) = currentTimer s"
  by (simp add: startInactivityTimer_def Let_def)

lemma currentTimer_startTimerInterval: "currentTimer (startTimerInterval cfg s) = currentTimer s"
  by (simp add: startTimerInterval_def currentTimer_startInactivityTimer)

lemma currentTimer_syncLoop: "currentTimer (syncLoop g q s) = currentTimer s"
  by (induction q arbitrary: s) simp_all

lemma currentTimer_syncPending: "currentTimer (syncPendingTimeEntries s) = currentTimer s"
  by (simp add: syncPendingTimeEntries_def Let_def currentTimer_syncLoop)

lemma currentTimer_syncSettled: "currentTimer (snd (syncSettled i r now s)) = currentTimer s"
  by (simp add: syncSettled_def saveTimeEntries_def split: outcome.splits)

lemma currentTimer_syncTimeEntryToAzure:
  "currentTimer (snd (syncTimeEntryToAzure i r now s)) = currentTimer s"
  by (simp add: syncTimeEntryToAzure_def currentTimer_syncSettled)

lemma currentTimer_syncResume: "currentTimer (syncResume k r now s) = currentTimer s"
  by (simp add: syncResume_def Let_def currentTimer_syncLoop currentTimer_syncSettled
      split: syncPass.splits)

lemma currentTimer_stop:
  "currentTimer (stopTimerCommand now inp s) = None"
  by (simp add: stopTimerCommand_def Let_def clearTimerState_def currentTimer_syncPending
      split: option.splits)

lemma session_ok_start: "session_ok s \<Longrightarrow> session_ok (startTimer w now cfg s)"
  by (simp add: startTimer_def session_ok_def Let_def startTimerInterval_def startInactivityTimer_def)

lemma session_ok_pause: "session_ok s \<Longrightarrow> session_ok (pauseTimerCommand now s)"
  by (simp add: pauseTimerCommand_def session_ok_def Let_def split: option.splits)

lemma session_ok_resume: "session_ok s \<Longrightarrow> session_ok (resumeTimerCommand a now cfg s)"
  by (auto simp add: resumeTimerCommand_def session_ok_def Let_def currentTimer_startTimerInterval split: option.splits)

lemma session_ok_tick: "session_ok s \<Longrightarrow> session_ok (timerTick now s)"
  by (auto simp add: timerTick_def session_ok_def Let_def pomodoroCheck_def split: option.splits prod.splits)

lemma session_ok_stop: "session_ok (stopTimerCommand now inp s)"
  by (simp add: session_ok_def currentTimer_stop)

lemma restored_elapsed:
  assumes "0 \<le> e" "e \<le> 86400"
  shows "0 \<le> min (e + min (max 0 (now - l)) (60 * 60 * 1000) div 1000) (86400::int)"
proof -
  have "0 \<le> min (max 0 (now - l)) (60 * 60 * 1000) div (1000::int)"
    by (simp add: pos_imp_zdiv_nonneg_iff)
  with assms show ?thesis by simp
qed

lemma session_ok_restore: "session_ok s \<Longrightarrow> session_ok (restoreTimerState now cfg s)"
  using restored_elapsed
  by (auto simp add: restoreTimerState_def session_ok_def Let_def currentTimer_startTimerInterval
      isValidTimerState_def toTimerState_def split: option.splits)

lemma session_ok_inactivityCheck: "session_ok s \<Longrightarrow> session_ok (inactivityCheck now s)"
  by (auto simp add: inactivityCheck_def intro!: session_ok_pause split: option.splits)
    (simp add: session_ok_def)

lemma session_ok_updateActivity: "session_ok s \<Longrightarrow> session_ok (updateActivity now cfg s)"
  by (auto simp add: updateActivity_def Let_def intro!: session_ok_resume split: option.splits)
    (simp_all add: session_ok_def)

lemma session_ok_currentTimer: "currentTimer s' = currentTimer s \<Longrightarrow> session_ok s' = session_ok s"
  by (simp add: session_ok_def)

lemma session_ok_step: "session_ok s \<Longrightarrow> session_ok (step e s)"
proof (cases e)
  case (StartBreak now)
  then show "session_ok s \<Longrightarrow> session_ok (step e s)"
    using session_ok_pause [of s now] by (simp add: session_ok_def)
next
  case (BreakOver now cfg)
  then show "session_ok s \<Longrightarrow> session_ok (step e s)"
    using session_ok_resume [of "s\<lparr>pomodoroBreakTimeout := False\<rparr>" False now cfg]
    by (simp add: session_ok_def)
qed (simp_all add: session_ok_start session_ok_pause session_ok_resume session_ok_tick
    session_ok_stop session_ok_restore session_ok_inactivityCheck session_ok_updateActivity
    currentTimer_syncPending currentTimer_syncResume currentTimer_syncTimeEntryToAzure
    session_ok_currentTimer [of "syncPendingTimeEntries s" s]
    session_ok_currentTimer [of "syncResume _ _ _ s" s]
    session_ok_currentTimer [of "snd (syncTimeEntryToAzure _ _ _ s)" s]
    session_ok_currentTimer [of "s\<lparr>azureDevOpsAPI := _\<rparr>" s])

lemma reachable_session_ok: "reachable s \<Longrightarrow> session_ok s"
proof (induction rule: reachable.induct)
  case (reachable_initial s)
  then show ?case by (simp add: initial_def session_ok_def)
next
  case (reachable_step s e)
  then show ?case by (simp add: session_ok_step)
qed

lemma reachable_running0: "reachable running0"
  unfolding running0_def
  by (rule reachable_step, rule reachable_initial) (simp add: initial_def idle0_def)

subsection \<open>What the sync passes keep\<close>

lemma pass_ok_frame:
  "passSubmissions s' = passSubmissions s \<Longrightarrow> syncPassCount s' = syncPassCount s \<Longrightarrow>
   length (timeEntries s') = length (timeEntries s) \<Longrightarrow> pass_ok s' = pass_ok s"
  by (rule ext) (simp add: pass_ok_def split: syncPass.splits)

lemma sync_inv_frame:
  "passes s' = passes s \<Longrightarrow> isSyncingTimeEntries s' = isSyncingTimeEntries s \<Longrightarrow>
   passSubmissions s' = passSubmissions s \<Longrightarrow> syncPassCount s' = syncPassCount s \<Longrightarrow>
   length (timeEntries s') = length (timeEntries s) \<Longrightarrow> sync_inv s' = sync_inv s"
  by (simp add: sync_inv_def pass_ok_frame [of s' s])






























subsection \<open>What stop leaves in the ledger\<close>





subsection \<open>Ticks of a fresh Pomodoro session\<close>

lemma start_awaiting:
  "\<not> timerStartLock s \<Longrightarrow> currentTimer s = None \<Longrightarrow> pomodoroEnabled cfg = Some True \<Longrightarrow>
   awaiting_first_pomodoro now (startTimer w now cfg s)"
  by (simp add: startTimer_def Let_def awaiting_first_pomodoro_def
      startTimerInterval_def startInactivityTimer_def)

lemma pomodoroCheck_quiet:
  "isPomodoro t = Some True \<Longrightarrow> elapsedSeconds t mod 1800 \<noteq> 1500 \<Longrightarrow> pomodoroCheck t s = (t, s)"
  by (simp add: pomodoroCheck_def)

lemma pomodoroCheck_fires:
  "isPomodoro t = Some True \<Longrightarrow> elapsedSeconds t mod 1800 = 1500 \<Longrightarrow>
   gs_lastPomodoroNotification s = Some 0 \<Longrightarrow> 1500 \<le> elapsedSeconds t \<Longrightarrow>
   pomodoroCheck t s =
     (t\<lparr>pomodoroCount := map_option (\<lambda>c. c + 1) (pomodoroCount t)\<rparr>,
      s\<lparr>gs_lastPomodoroNotification := Some (elapsedSeconds t), pomodoroBreakTimeout := False\<rparr>)"
  by (simp add: pomodoroCheck_def)

lemma timerTick_running:
  "currentTimer s = Some t \<Longrightarrow> \<not> isPaused t \<Longrightarrow>
   timerTick now s =
     (case pomodoroCheck (t\<lparr>elapsedSeconds := elapsedAt (startTime t) now\<rparr>) s of
        (t2, s2) \<Rightarrow> s2\<lparr>currentTimer := Some t2, gs_currentTimer := Some (toSnapshot t2)\<rparr>)"
  by (simp add: timerTick_def elapsedAt_def Let_def)

lemma tick_quiet:
  assumes "awaiting_first_pomodoro start s" and "elapsedAt start now mod 1800 \<noteq> 1500"
  shows "awaiting_first_pomodoro start (timerTick now s)"
proof -
  from assms(1) obtain t where t: "currentTimer s = Some t" "startTime t = start" "\<not> isPaused t"
    "isPomodoro t = Some True" "pomodoroCount t = Some 0" "gs_lastPomodoroNotification s = Some 0"
    by (auto simp add: awaiting_first_pomodoro_def split: option.splits)
  with assms(2) show ?thesis
    by (simp add: timerTick_running pomodoroCheck_quiet awaiting_first_pomodoro_def)
qed

lemma ticks_quiet:
  "awaiting_first_pomodoro start s \<Longrightarrow>
   list_all (\<lambda>n. elapsedAt start n mod 1800 \<noteq> 1500) nows \<Longrightarrow>
   awaiting_first_pomodoro start (ticks nows s)"
  by (induction nows arbitrary: s) (simp_all add: tick_quiet)

lemma boundary_reached: "0 \<le> e \<Longrightarrow> e mod 1800 = 1500 \<Longrightarrow> 1500 \<le> (e::int)"
  using zmod_le_nonneg_dividend [of e 1800] by simp

lemma tick_fires:
  assumes "awaiting_first_pomodoro start s" and "elapsedAt start now mod 1800 = 1500"
  shows "gs_lastPomodoroNotification (timerTick now s) = Some (elapsedAt start now) \<and>
         map_option pomodoroCount (currentTimer (timerTick now s)) = Some (Some 1)"
proof -
  from assms(1) obtain t where t: "currentTimer s = Some t" "startTime t = start" "\<not> isPaused t"
    "isPomodoro t = Some True" "pomodoroCount t = Some 0" "gs_lastPomodoroNotification s = Some 0"
    by (auto simp add: awaiting_first_pomodoro_def split: option.splits)
  have "0 \<le> elapsedAt start now" by (simp add: elapsedAt_def)
  from this assms(2) have "1500 \<le> elapsedAt start now" by (rule boundary_reached)
  with t assms(2) show ?thesis
    by (simp add: timerTick_running pomodoroCheck_fires)
qed

subsection \<open>Validation, timeout and resume\<close>

lemma isValidTimerState_fails_iff:
  "\<not> isValidTimerState v \<longleftrightarrow>
     typeof (js_workItemId v) \<noteq> TNumber \<or> num_of (js_workItemId v) \<le> 0 \<or>
     typeof (js_workItemTitle v) \<noteq> TString \<or>
     typeof (js_startTime v) \<noteq> TNumber \<or> num_of (js_startTime v) \<le> 0 \<or>
     typeof (js_elapsedSeconds v) \<noteq> TNumber \<or>
     num_of (js_elapsedSeconds v) < 0 \<or> num_of (js_elapsedSeconds v) > 86400 \<or>
     typeof (js_isPaused v) \<noteq> TBoolean"
  by (auto simp add: isValidTimerState_def)

lemma negative_timeout_disables:
  "timerInactivityTimeout cfg = Some v \<Longrightarrow> v < 0 \<Longrightarrow>
   inactivityTimer (startInactivityTimer cfg s) = None"
  by (simp add: startInactivityTimer_def num_or_def)

lemma resume_effect:
  assumes "currentTimer s = Some t" and "isPaused t"
  shows "\<exists>t'. currentTimer (resumeTimerCommand autoResumed now cfg s) = Some t' \<and>
           \<not> isPaused t' \<and> pausedTime t' = None \<and>
           pausedDueToInactivity t' = pausedDueToInactivity t \<and>
           elapsedSeconds t' = elapsedSeconds t \<and>
           startTime t' =
             (case pausedTime t of
                None \<Rightarrow> startTime t
              | Some p \<Rightarrow> if p > 0 then startTime t + min (max 0 (now - p)) 86400000
                          else startTime t)"
  using assms
  by (auto simp add: resumeTimerCommand_def Let_def currentTimer_startTimerInterval
      split: option.splits)

section \<open>Claims\<close>

text \<open>
  Claim C1. In every reachable state, whichever of start, pause, resume, tick, stop and
  restore runs next, a timer session that exists afterwards has
  \<open>0 \<le> elapsedSeconds \<le> 86400\<close>. Reachable means: from the state after activation, by
  any sequence of events of the event loop, with any clock readings, settings, prompt
  answers, remote outcomes and persisted values.
\<close>

theorem elapsedSeconds_within_24h:
  "reachable s \<Longrightarrow>
     session_ok (startTimer workItem now cfg s) \<and>
     session_ok (pauseTimerCommand now s) \<and>
     session_ok (resumeTimerCommand autoResumed now cfg s) \<and>
     session_ok (timerTick now s) \<and>
     session_ok (stopTimerCommand now inp s) \<and>
     session_ok (restoreTimerState now cfg s)"
  by (simp add: reachable_session_ok session_ok_start session_ok_pause session_ok_resume
      session_ok_tick session_ok_stop session_ok_restore)

theorem elapsedSeconds_within_24h_witness:
  "reachable running0 \<and>
   session_ok (startTimer item42 90000000 cfg0 running0) \<and>
   session_ok (pauseTimerCommand 90000000 running0) \<and>
   map_option elapsedSeconds (currentTimer (pauseTimerCommand 90000000 running0)) = Some 86400 \<and>
   session_ok (resumeTimerCommand False 90000000 cfg0 running0) \<and>
   session_ok (timerTick 90000000 running0) \<and>
   map_option elapsedSeconds (currentTimer (timerTick 90000000 running0)) = Some 86400 \<and>
   session_ok (stopTimerCommand 90000000 inp0 running0) \<and>
   session_ok (restoreTimerState 90000000 cfg0 running0)"
proof -
  have "map_option elapsedSeconds (currentTimer (pauseTimerCommand 90000000 running0)) =
      Some 86400"
    by (simp add: sample_defs op_defs)
  moreover have "map_option elapsedSeconds (currentTimer (timerTick 90000000 running0)) =
      Some 86400"
    by (simp add: sample_defs op_defs)
  ultimately show ?thesis
    using reachable_running0
      elapsedSeconds_within_24h [OF reachable_running0, of item42 90000000 cfg0 False inp0]
    by simp
qed

text \<open>
  Claim C2. The session lives in the single slot \<open>currentTimer\<close>, so there is never more
  than one. A call of \<open>startTimer\<close> while a session exists, or while the start lock is
  held, changes nothing at all: the existing session, the durable store and the timers
  stay as they were.
\<close>

theorem startTimer_second_call_noop:
  "timerStartLock s \<or> currentTimer s \<noteq> None \<Longrightarrow> startTimer workItem now cfg s = s"
  by (auto simp add: startTimer_def)

theorem startTimer_second_call_noop_witness:
  "currentTimer running0 \<noteq> None \<and> startTimer item42 5000 cfg0 running0 = running0"
proof -
  have h: "currentTimer running0 \<noteq> None" by (simp add: sample_defs op_defs)
  then have "timerStartLock running0 \<or> currentTimer running0 \<noteq> None" by simp
  from h startTimer_second_call_noop [OF this] show ?thesis by simp
qed






text \<open>
  Claim C5, as stated, fails for an entry that is already synced when the call is made:
  the \<^verbatim>\<open>catch\<close> block records the error and does not touch \<open>synced\<close>, so after a
  failed call the entry is still synced.
\<close>

theorem sync_failure_keeps_synced_counterexample:
  "\<not> fst (syncTimeEntryToAzure 0 (Rejected ''HTTP 503'') 5000 synced0) \<and>
   synced (timeEntries (snd (syncTimeEntryToAzure 0 (Rejected ''HTTP 503'') 5000 synced0)) ! 0)"
  by (simp add: sample_defs op_defs)

text \<open>
  Claim C5, amended. With a connection, \<open>syncTimeEntryToAzure\<close> returns for either
  outcome of the remote call. When the call resolves it returns true and the entry is
  synced with no error recorded. When the call is rejected it returns false, leaves
  \<open>synced\<close> as it was (so false for an entry that was pending), and records the error
  message, or \<open>Unknown error\<close> for an empty one. A later call that resolves makes the
  entry synced and clears the error. Every outcome is persisted.
\<close>

theorem syncTimeEntryToAzure_outcomes:
  assumes "azureDevOpsAPI s" and "i < length (timeEntries s)"
  shows "(\<exists>s'. syncTimeEntryToAzure i Resolved now s = (True, s') \<and>
            synced (timeEntries s' ! i) \<and> syncError (timeEntries s' ! i) = None \<and>
            gs_timeEntries s' = timeEntries s') \<and>
         (\<exists>s'. syncTimeEntryToAzure i (Rejected message) now s = (False, s') \<and>
            synced (timeEntries s' ! i) = synced (timeEntries s ! i) \<and>
            syncError (timeEntries s' ! i) =
              Some (if message = [] then ''Unknown error'' else message) \<and>
            gs_timeEntries s' = timeEntries s' \<and>
            (\<exists>s''. syncTimeEntryToAzure i Resolved later s' = (True, s'') \<and>
               synced (timeEntries s'' ! i) \<and> syncError (timeEntries s'' ! i) = None))"
  using assms
  by (simp add: syncTimeEntryToAzure_def syncSettled_def saveTimeEntries_def markSynced_def
      markFailed_def)

theorem syncTimeEntryToAzure_outcomes_witness:
  "azureDevOpsAPI pending0 \<and> 0 < length (timeEntries pending0) \<and>
   \<not> synced (timeEntries pending0 ! 0) \<and>
   (\<exists>s'. syncTimeEntryToAzure 0 (Rejected ''HTTP 503'') 5000 pending0 = (False, s') \<and>
      \<not> synced (timeEntries s' ! 0) \<and> syncError (timeEntries s' ! 0) = Some ''HTTP 503'' \<and>
      (\<exists>s''. syncTimeEntryToAzure 0 Resolved 9000 s' = (True, s'') \<and>
         synced (timeEntries s'' ! 0) \<and> syncError (timeEntries s'' ! 0) = None))"
proof -
  have a: "azureDevOpsAPI pending0" and b: "0 < length (timeEntries pending0)"
    and c: "\<not> synced (timeEntries pending0 ! 0)"
    by (simp_all add: sample_defs)
  from syncTimeEntryToAzure_outcomes [OF a b, of 5000 "''HTTP 503''" 9000] a b c show ?thesis by auto
qed

text \<open>
  Claim C6. When restore runs at activation (no session in memory) and the persisted
  snapshot fails \<open>isValidTimerState\<close>, restore returns with the snapshot removed from the
  store and nothing else changed: no session, no timer armed. By
  \<open>isValidTimerState_fails_iff\<close> a snapshot fails exactly when the item id or the start
  time is missing, not a number or not positive, the title is not a string, the elapsed
  seconds are missing, not a number or outside \<open>[0, 86400]\<close>, or \<open>isPaused\<close> is not a
  boolean.
\<close>

theorem restore_discards_invalid_snapshot:
  assumes "currentTimer s = None" and "gs_currentTimer s = Some v" and "\<not> isValidTimerState v"
  shows "restoreTimerState now cfg s = s\<lparr>gs_currentTimer := None\<rparr> \<and>
         currentTimer (restoreTimerState now cfg s) = None \<and>
         gs_currentTimer (restoreTimerState now cfg s) = None"
  using assms by (simp add: restoreTimerState_def)

theorem restore_discards_invalid_snapshot_witness:
  "currentTimer stale0 = None \<and> gs_currentTimer stale0 = Some badSnapshot \<and>
   js_elapsedSeconds badSnapshot = JNum (- 5) \<and> \<not> isValidTimerState badSnapshot \<and>
   restoreTimerState 5000 cfg0 stale0 = stale0\<lparr>gs_currentTimer := None\<rparr> \<and>
   currentTimer (restoreTimerState 5000 cfg0 stale0) = None \<and>
   gs_currentTimer (restoreTimerState 5000 cfg0 stale0) = None"
proof -
  have a: "currentTimer stale0 = None" and b: "gs_currentTimer stale0 = Some badSnapshot"
    and c: "\<not> isValidTimerState badSnapshot" and d: "js_elapsedSeconds badSnapshot = JNum (- 5)"
    by (simp_all add: sample_defs isValidTimerState_def)
  from restore_discards_invalid_snapshot [OF a b c, of 5000 cfg0] a b c d show ?thesis by simp
qed

text \<open>
  Claim C7 against the code. \<open>resumeTimerCommand\<close> clears \<open>isPaused\<close> and \<open>pausedTime\<close> and
  shifts the start, but it does not touch \<open>pausedDueToInactivity\<close>; only the auto-resume
  path in \<open>updateActivity\<close> resets that flag before it calls resume. In \<open>inactive0\<close> the
  session was paused by the inactivity monitor at clock 400000. Resumed by hand at
  500000 it runs again with the flag still set; paused by hand at 600000, the next
  activity at 700000 resumes it, although the pause was not due to inactivity. What
  resume does to any paused session is \<open>resume_effect\<close>.
\<close>

theorem manual_resume_keeps_inactivity_flag:
  "map_option isPaused (currentTimer inactive0) = Some True \<and>
   map_option pausedDueToInactivity (currentTimer inactive0) = Some (Some True) \<and>
   map_option isPaused (currentTimer (resumeTimerCommand False 500000 cfg0 inactive0)) =
     Some False \<and>
   map_option pausedTime (currentTimer (resumeTimerCommand False 500000 cfg0 inactive0)) =
     Some None \<and>
   map_option startTime (currentTimer (resumeTimerCommand False 500000 cfg0 inactive0)) =
     Some (1000 + (500000 - 400000)) \<and>
   map_option pausedDueToInactivity
     (currentTimer (resumeTimerCommand False 500000 cfg0 inactive0)) = Some (Some True) \<and>
   map_option isPaused
     (currentTimer (pauseTimerCommand 600000 (resumeTimerCommand False 500000 cfg0 inactive0))) =
     Some True \<and>
   map_option isPaused
     (currentTimer (updateActivity 700000 cfg0
        (pauseTimerCommand 600000 (resumeTimerCommand False 500000 cfg0 inactive0)))) =
     Some False"
  by (simp add: sample_defs op_defs)

text \<open>
  Claim C8 against the code. A configured timeout of exactly 0 is falsy, so
  \<^verbatim>\<open>get('timerInactivityTimeout') || 300\<close> replaces it by 300 before the test
  \<^verbatim>\<open>timeout <= 0\<close>: the inactivity interval is armed, and after 300 idle seconds the
  session is paused with \<open>pausedDueToInactivity\<close> set. Negative timeouts do disable the
  monitor (\<open>negative_timeout_disables\<close>).
\<close>

theorem zero_timeout_arms_inactivity_monitor:
  "timerInactivityTimeout cfgZero = Some 0 \<and>
   inactivityTimer (startInactivityTimer cfgZero idle0) = Some 300 \<and>
   inactivityTimer (startTimer item42 1000 cfgZero idle0) = Some 300 \<and>
   map_option isPaused
     (currentTimer (inactivityCheck 400000 (startTimer item42 1000 cfgZero idle0))) = Some True \<and>
   map_option pausedDueToInactivity
     (currentTimer (inactivityCheck 400000 (startTimer item42 1000 cfgZero idle0))) =
     Some (Some True)"
  by (simp add: sample_defs op_defs)



text \<open>
  Claim C10. A start that succeeds stores 0 as the \<open>lastPomodoroNotification\<close> marker and
  gives the new session the cycle count 0, whatever marker the previous session left:
  the result of start does not depend on the old marker. Hence, with Pomodoro enabled,
  ticks that do not land on the 1500-second mark of a cycle leave the marker at 0, and
  the first tick that does land on it fires: it stores the elapsed time as marker and
  counts the first cycle.
\<close>

theorem start_resets_pomodoro_marker:
  assumes "\<not> timerStartLock s" and "currentTimer s = None"
  shows "gs_lastPomodoroNotification (startTimer w now cfg s) = Some 0 \<and>
     map_option pomodoroCount (currentTimer (startTimer w now cfg s)) = Some (Some 0) \<and>
     startTimer w now cfg (s\<lparr>gs_lastPomodoroNotification := m\<rparr>) = startTimer w now cfg s \<and>
     (pomodoroEnabled cfg = Some True \<and>
      list_all (\<lambda>n. elapsedAt now n mod 1800 \<noteq> 1500) nows \<and>
      elapsedAt now n' mod 1800 = 1500 \<longrightarrow>
        gs_lastPomodoroNotification (ticks nows (startTimer w now cfg s)) = Some 0 \<and>
        gs_lastPomodoroNotification (timerTick n' (ticks nows (startTimer w now cfg s))) =
          Some (elapsedAt now n') \<and>
        map_option pomodoroCount
          (currentTimer (timerTick n' (ticks nows (startTimer w now cfg s)))) = Some (Some 1))"
proof (intro conjI impI)
  from assms show "gs_lastPomodoroNotification (startTimer w now cfg s) = Some 0"
    "map_option pomodoroCount (currentTimer (startTimer w now cfg s)) = Some (Some 0)"
    "startTimer w now cfg (s\<lparr>gs_lastPomodoroNotification := m\<rparr>) = startTimer w now cfg s"
    by (simp_all add: startTimer_def Let_def startTimerInterval_def startInactivityTimer_def)
next
  assume h: "pomodoroEnabled cfg = Some True \<and>
      list_all (\<lambda>n. elapsedAt now n mod 1800 \<noteq> 1500) nows \<and>
      elapsedAt now n' mod 1800 = 1500"
  with assms have "awaiting_first_pomodoro now (startTimer w now cfg s)"
    by (simp add: start_awaiting)
  with h have q: "awaiting_first_pomodoro now (ticks nows (startTimer w now cfg s))"
    by (simp add: ticks_quiet)
  then show "gs_lastPomodoroNotification (ticks nows (startTimer w now cfg s)) = Some 0"
    by (simp add: awaiting_first_pomodoro_def)
  from tick_fires [OF q] h
  show "gs_lastPomodoroNotification (timerTick n' (ticks nows (startTimer w now cfg s))) =
          Some (elapsedAt now n')"
    "map_option pomodoroCount
          (currentTimer (timerTick n' (ticks nows (startTimer w now cfg s)))) = Some (Some 1)"
    by simp_all
qed

theorem start_resets_pomodoro_marker_witness:
  "\<not> timerStartLock idle0 \<and> currentTimer idle0 = None \<and>
   gs_lastPomodoroNotification idle0 = Some 1500 \<and>
   pomodoroEnabled cfg0 = Some True \<and>
   list_all (\<lambda>n. elapsedAt 1000 n mod 1800 \<noteq> 1500) [2000, 900000] \<and>
   elapsedAt 1000 1501000 mod 1800 = 1500 \<and>
   gs_lastPomodoroNotification (startTimer item42 1000 cfg0 idle0) = Some 0 \<and>
   map_option pomodoroCount (currentTimer (startTimer item42 1000 cfg0 idle0)) = Some (Some 0) \<and>
   startTimer item42 1000 cfg0 (idle0\<lparr>gs_lastPomodoroNotification := Some 0\<rparr>) =
     startTimer item42 1000 cfg0 idle0 \<and>
   gs_lastPomodoroNotification
     (timerTick 1501000 (ticks [2000, 900000] (startTimer item42 1000 cfg0 idle0))) = Some 1500 \<and>
   map_option pomodoroCount
     (currentTimer (timerTick 1501000 (ticks [2000, 900000] (startTimer item42 1000 cfg0 idle0)))) =
     Some (Some 1)"
proof -
  have a: "\<not> timerStartLock idle0" and b: "currentTimer idle0 = None"
    and c: "gs_lastPomodoroNotification idle0 = Some 1500" "pomodoroEnabled cfg0 = Some True"
    by (simp_all add: sample_defs)
  have d: "list_all (\<lambda>n. elapsedAt 1000 n mod 1800 \<noteq> 1500) [2000, 900000]"
    "elapsedAt 1000 1501000 mod 1800 = 1500" "elapsedAt 1000 1501000 = 1500"
    by (simp_all add: elapsedAt_def)
  from start_resets_pomodoro_marker [OF a b, of item42 1000 cfg0 "Some 0" "[2000, 900000]" 1501000] a b c d
  show ?thesis by simp
qed

end
